theory Spec2Isabelle
  imports Complex_Main "HOL-Library.Sublist"
begin

section \<open>Values of the host language and of the persistence backend\<close>

text \<open>
  Strings are lists of code units; the model keeps the code units 0..255, which is where
  every character that matters to the repository lives (\<open>%\<close>, \<open>_\<close>, \<open>,\<close>, digits, white
  space). The white space of the language (what \<open>\s\<close> matches and what number parsing
  skips) is, in that range: tab, line feed, vertical tab, form feed, carriage return,
  space and no-break space.
\<close>

definition isWhiteSpace :: "char \<Rightarrow> bool" where
  "isWhiteSpace c = (of_char c \<in> {9, 10, 11, 12, 13, 32, 160 :: nat})"

text \<open>
  A raw filter value, as the parameter object of a request carries it: a scalar (a string)
  or an array of scalars.
\<close>

datatype raw = Str string | Arr "string list"

text \<open>Numbers: the result of \<open>parseFloat\<close>/\<open>parseInt\<close>. Finite numbers are kept exact.\<close>

datatype jsnum = NaN | Infinity bool | Finite rat

text \<open>A point in time (milliseconds since the epoch), or the invalid date.\<close>

datatype jsdate = InvalidDate | Instant int

datatype error = TypeError | EntityNotFound

text \<open>What a column holds and what a predicate compares it with.\<close>

datatype lit = Null | S string | N jsnum | D jsdate

section \<open>Predicate fragments\<close>

text \<open>
  The right-hand side of \<open>column: ...\<close> in a \<open>where\<close> object: a plain value, an object with
  one operator key (\<open>{ [Op.gte]: x }\<close> is \<open>OpGte x\<close>), or an object with several operator
  keys (\<open>Ops\<close>, all of which must hold).
\<close>

datatype cond =
    Val lit
  | OpLt lit
  | OpLte lit
  | OpGte lit
  | OpNe lit
  | OpLike string
  | OpOr "cond list"
  | OpAnd "cond list"
  | Ops "cond list"

text \<open>A \<open>where\<close> object: a condition on a column, or \<open>{ [Op.or]: { a: ..., b: ... } }\<close>.\<close>

datatype whereClause = Attr string cond | WhereOr "whereClause list"

datatype modelRef = styleModel | categoriesModel | offerModel

text \<open>
  What a filter function returns: \<open>{ filter, model }\<close>; \<open>model\<close> is absent when the
  predicate is about the release itself.
\<close>

record fragment =
  filter' :: whereClause
  model :: "modelRef option"

section \<open>How the backend evaluates a predicate\<close>

text \<open>
  The pattern language of \<open>LIKE\<close>: \<open>%\<close> stands for any run of characters, \<open>_\<close> for any one
  character, and a backslash takes the next pattern character literally. Characters are
  compared exactly.
\<close>

fun like :: "string \<Rightarrow> string \<Rightarrow> bool" where
  "like [] s = (s = [])"
| "like (p # ps) [] = (p = CHR ''%'' \<and> like ps [])"
| "like (p # ps) (c # cs) =
     (if p = CHR ''%'' then like ps (c # cs) \<or> like (p # ps) cs
      else if p = CHR ''_'' then like ps cs
      else if p = CHR 0x5C then
        (case ps of [] \<Rightarrow> c = p \<and> cs = [] | q # qs \<Rightarrow> c = q \<and> like qs cs)
      else c = p \<and> like ps cs)"

text \<open>
  Comparisons follow SQL: a comparison with \<open>NULL\<close> is never true, \<open>= NULL\<close> and
  \<open><> NULL\<close> are written \<open>IS NULL\<close> and \<open>IS NOT NULL\<close>. A comparison against \<open>NaN\<close>, an
  infinity or the invalid date selects no row (the backend has no such literal).
  Conversions between kinds are not modelled: a comparison between values of different
  kinds is false here, and the predicates on the columns of a release never mix kinds.
  Only numbers and instants are ordered: no filter of the repository orders strings.
\<close>

fun litEq :: "lit \<Rightarrow> lit \<Rightarrow> bool" where
  "litEq Null Null = True"
| "litEq (S a) (S b) = (a = b)"
| "litEq (N (Finite a)) (N (Finite b)) = (a = b)"
| "litEq (D (Instant a)) (D (Instant b)) = (a = b)"
| "litEq _ _ = False"

fun litNe :: "lit \<Rightarrow> lit \<Rightarrow> bool" where
  "litNe Null _ = False"
| "litNe _ Null = True"
| "litNe (S a) (S b) = (a \<noteq> b)"
| "litNe (N (Finite a)) (N (Finite b)) = (a \<noteq> b)"
| "litNe (D (Instant a)) (D (Instant b)) = (a \<noteq> b)"
| "litNe _ _ = False"

fun litLt :: "lit \<Rightarrow> lit \<Rightarrow> bool" where
  "litLt (N (Finite a)) (N (Finite b)) = (a < b)"
| "litLt (D (Instant a)) (D (Instant b)) = (a < b)"
| "litLt _ _ = False"

fun litLike :: "lit \<Rightarrow> string \<Rightarrow> bool" where
  "litLike (S a) p = like p a"
| "litLike _ p = False"

text \<open>\<open>holds c x\<close>: the column value \<open>x\<close> satisfies the condition \<open>c\<close>.\<close>

fun holds :: "cond \<Rightarrow> lit \<Rightarrow> bool" where
  "holds (Val v) x = litEq x v"
| "holds (OpLt v) x = litLt x v"
| "holds (OpLte v) x = (litLt x v \<or> (x \<noteq> Null \<and> litEq x v))"
| "holds (OpGte v) x = (litLt v x \<or> (x \<noteq> Null \<and> litEq x v))"
| "holds (OpNe v) x = litNe x v"
| "holds (OpLike p) x = litLike x p"
| "holds (OpOr cs) x = list_ex (\<lambda>c. holds c x) cs"
| "holds (OpAnd cs) x = list_all (\<lambda>c. holds c x) cs"
| "holds (Ops cs) x = list_all (\<lambda>c. holds c x) cs"

text \<open>A row is read by column name.\<close>

fun matches :: "whereClause \<Rightarrow> (string \<Rightarrow> lit) \<Rightarrow> bool" where
  "matches (Attr a c) row = holds c (row a)"
| "matches (WhereOr ws) row = list_ex (\<lambda>w. matches w row) ws"

section \<open>The release entity\<close>

record release =
  rid :: nat
  slug :: string
  name :: string
  sku :: string
  gender :: string
  color :: string
  releaseDate :: "int option"
  priceEUR :: rat
  priceGBP :: rat
  priceUSD :: rat
  hiddenDashboard :: bool
  updatedAt :: int

definition releaseRow :: "release \<Rightarrow> string \<Rightarrow> lit" where
  "releaseRow r c =
     (if c = ''id'' then N (Finite (of_nat (rid r)))
      else if c = ''slug'' then S (slug r)
      else if c = ''name'' then S (name r)
      else if c = ''sku'' then S (sku r)
      else if c = ''gender'' then S (gender r)
      else if c = ''color'' then S (color r)
      else if c = ''releaseDate'' then
        (case releaseDate r of None \<Rightarrow> Null | Some t \<Rightarrow> D (Instant t))
      else if c = ''priceEUR'' then N (Finite (priceEUR r))
      else if c = ''priceGBP'' then N (Finite (priceGBP r))
      else if c = ''priceUSD'' then N (Finite (priceUSD r))
      else if c = ''hiddenDashboard'' then N (Finite (if hiddenDashboard r then 1 else 0))
      else if c = ''updatedAt'' then D (Instant (updatedAt r))
      else Null)"

text \<open>\<open>selects w r\<close>: the release \<open>r\<close> is among the rows the predicate \<open>w\<close> selects.\<close>

definition selects :: "whereClause \<Rightarrow> release \<Rightarrow> bool" where
  "selects w r = matches w (releaseRow r)"

section \<open>Parsing raw values\<close>















text \<open>
  \<open>value.split(/\s+/g)\<close>: the pieces of the string between maximal runs of white space.
  \<open>splitLoop piece rest\<close> holds the piece read so far; at a white space character the
  piece is emitted and the whole run is skipped; the last piece is emitted at the end of
  the string, also when it is empty.
\<close>

function splitLoop :: "string \<Rightarrow> string \<Rightarrow> string list" where
  "splitLoop piece [] = [piece]"
| "splitLoop piece (c # cs) =
     (if isWhiteSpace c then piece # splitLoop [] (dropWhile isWhiteSpace cs)
      else splitLoop (piece @ [c]) cs)"
  by pat_completeness auto
termination
  by (relation "measure (\<lambda>(piece, rest). length rest)")
     (auto simp: length_dropWhile_le less_Suc_eq_le)

definition split :: "string \<Rightarrow> string list" where
  "split s = splitLoop [] s"

section \<open>The environment of a filter function\<close>

text \<open>The clock: milliseconds since the epoch at the moment of the call.\<close>

record env =
  now :: int

definition msPerDay :: int where
  "msPerDay = 86400000"

text \<open>
  \<open>new Date(moment.utc().format('YYYY-MM-DD'))\<close>: the instant at which the current UTC
  day began.
\<close>

definition utcToday :: "env \<Rightarrow> jsdate" where
  "utcToday e = Instant ((now e div msPerDay) * msPerDay)"

section \<open>The filter functions\<close>






definition outdated :: "env \<Rightarrow> raw \<Rightarrow> error + fragment" where
  "outdated e value =
     (let date = utcToday e
      in Inr \<lparr>filter' = Attr ''releaseDate'' (Ops [OpLt (D date), OpNe Null]), model = None\<rparr>)"

definition coming :: "env \<Rightarrow> raw \<Rightarrow> error + fragment" where
  "coming e value =
     (let date = utcToday e
      in Inr \<lparr>filter' = Attr ''releaseDate'' (Ops [OpGte (D date), OpNe Null]), model = None\<rparr>)"










text \<open>
  \<open>gender\<close>: \<open>{ gender: { [Op.or]: [...value, 'u'] } }\<close> for an array,
  \<open>{ gender: { [Op.or]: [value, 'u'] } }\<close> otherwise.
\<close>

definition gender_filter :: "raw \<Rightarrow> error + fragment" where
  "gender_filter value =
     Inr \<lparr>filter' = Attr ''gender''
            (case value of
               Arr vs \<Rightarrow> OpOr (map (\<lambda>v. Val (S v)) vs @ [Val (S ''u'')])
             | Str v \<Rightarrow> OpOr [Val (S v), Val (S ''u'')]),
          model = None\<rparr>"




section \<open>The store and the operations of the backend\<close>

record imageAttrs =
  releaseId :: "nat option"
  imageUrl :: string

record image = imageAttrs +
  imageId :: nat

text \<open>
  The store: the rows of \<open>releases\<close> and of \<open>release_images\<close>, and one option of the
  \<open>releases\<close> model, whose definition is not in this file: whether the backend maintains
  \<open>updatedAt\<close> itself (\<open>timestamps\<close>).
\<close>

record database =
  releases :: "release list"
  release_images :: "image list"
  timestamps :: bool

text \<open>\<open>{ where: { id } }\<close>\<close>

definition whereId :: "nat \<Rightarrow> whereClause" where
  "whereId i = Attr ''id'' (Val (N (Finite (of_nat i))))"

definition findOne :: "whereClause \<Rightarrow> database \<Rightarrow> release option" where
  "findOne w db = find (selects w) (releases db)"

definition findAll :: "whereClause \<Rightarrow> database \<Rightarrow> release list" where
  "findAll w db = filter (selects w) (releases db)"

text \<open>
  The store gives an inserted image row an identifier above those of the rows it holds.
\<close>

definition freshImageId :: "database \<Rightarrow> nat" where
  "freshImageId db = foldr (\<lambda>row n. max (Suc (imageId row)) n) (release_images db) 0"

text \<open>\<open>bulkCreate\<close> inserts one row per record and answers the rows it created.\<close>

definition bulkCreate :: "imageAttrs list \<Rightarrow> database \<Rightarrow> image list \<times> database" where
  "bulkCreate records db =
     (let n = freshImageId db;
          rows = map (\<lambda>(a, i). \<lparr>releaseId = releaseId a, imageUrl = imageUrl a, imageId = i\<rparr>)
                     (zip records [n ..< n + length records])
      in (rows, db\<lparr>release_images := release_images db @ rows\<rparr>))"

text \<open>\<open>release.addImages(rows)\<close> makes the release the owner of the rows with these ids.\<close>

definition addImages :: "release \<Rightarrow> image list \<Rightarrow> database \<Rightarrow> database" where
  "addImages r rows db =
     db\<lparr>release_images :=
          map (\<lambda>row. if imageId row \<in> set (map imageId rows)
                      then row\<lparr>releaseId := Some (rid r)\<rparr> else row)
              (release_images db)\<rparr>"

definition getImages :: "release \<Rightarrow> database \<Rightarrow> image list" where
  "getImages r db = filter (\<lambda>row. releaseId row = Some (rid r)) (release_images db)"

text \<open>
  \<open>model.update(values, { where })\<close> writes the values into every selected row and answers
  how many rows it selected; with \<open>timestamps\<close> it also sets \<open>updatedAt\<close> of these rows to
  the time of the call.
\<close>

definition update ::
  "(release \<Rightarrow> release) \<Rightarrow> whereClause \<Rightarrow> env \<Rightarrow> database \<Rightarrow> nat \<times> database" where
  "update values w e db =
     (length (filter (selects w) (releases db)),
      db\<lparr>releases :=
           map (\<lambda>r. if selects w r
                    then (if timestamps db then (values r)\<lparr>updatedAt := now e\<rparr> else values r)
                    else r)
               (releases db)\<rparr>)"

section \<open>The operations of the repository\<close>

definition createImages ::
  "nat \<Rightarrow> imageAttrs list \<Rightarrow> database \<Rightarrow> (error + image list) \<times> database" where
  "createImages i images db =
     (case findOne (whereId i) db of
        None \<Rightarrow> (Inl EntityNotFound, db)
      | Some release \<Rightarrow>
          (let (newImages, db1) = bulkCreate images db;
               db2 = addImages release newImages db1
           in (Inr newImages, db2)))"

text \<open>
  \<open>getAllImages\<close> does not wait for \<open>release.getImages()\<close>: \<open>images\<close> is the promise of
  the rows. A promise is never falsy, so \<open>return []\<close> is not reached, and \<open>images.map\<close>
  is the map of the backend's promises, which maps over the rows the promise resolves to.
  \<open>ReleaseImage\<close>, the conversion into the domain, is defined outside this file and is a
  parameter.
\<close>

definition getAllImages :: "(image \<Rightarrow> 'd) \<Rightarrow> nat \<Rightarrow> database \<Rightarrow> error + 'd list" where
  "getAllImages ReleaseImage i db =
     (case findOne (whereId i) db of
        None \<Rightarrow> Inl EntityNotFound
      | Some release \<Rightarrow> Inr (map (\<lambda>data. ReleaseImage data) (getImages release db)))"


text \<open>\<open>Release\<close>, the conversion of a row into the domain, is a parameter as well.\<close>

definition getPastReleases :: "(release \<Rightarrow> 'd) \<Rightarrow> jsdate \<Rightarrow> database \<Rightarrow> 'd list" where
  "getPastReleases Release date db =
     (let releases = findAll (Attr ''releaseDate'' (OpLt (D date))) db
      in map (\<lambda>data. Release data) releases)"

definition destroyImage :: "nat \<Rightarrow> database \<Rightarrow> nat \<times> database" where
  "destroyImage i db =
     (length (filter (\<lambda>row. imageId row = i) (release_images db)),
      db\<lparr>release_images := filter (\<lambda>row. imageId row \<noteq> i) (release_images db)\<rparr>)"

definition setHiddenDashboard :: "nat \<Rightarrow> bool \<Rightarrow> env \<Rightarrow> database \<Rightarrow> nat \<times> database" where
  "setHiddenDashboard i flag e db =
     update (\<lambda>r. r\<lparr>hiddenDashboard := flag\<rparr>) (whereId i) e db"

text \<open>
  \<open>modifyUpdatedAt\<close> writes \<open>updatedAt\<close> with a statement of its own,
  \<open>update releases set updatedAt=:updatedAt where id=:id\<close>, which goes past \<open>update\<close> and
  its timestamps.
\<close>

definition modifyUpdatedAt :: "nat \<Rightarrow> int \<Rightarrow> database \<Rightarrow> database" where
  "modifyUpdatedAt i t db =
     db\<lparr>releases := map (\<lambda>r. if rid r = i then r\<lparr>updatedAt := t\<rparr> else r) (releases db)\<rparr>"

section \<open>Pattern characters\<close>



section \<open>Example data\<close>

definition exampleRelease :: release where
  "exampleRelease =
     \<lparr>rid = 1, slug = ''AJ1-red'', name = ''Air Maximus'', sku = ''AJ-001'', gender = ''m'',
      color = ''red'', releaseDate = Some 86400000, priceEUR = 90, priceGBP = 80,
      priceUSD = 100, hiddenDashboard = False, updatedAt = 0\<rparr>"

definition exampleStore :: database where
  "exampleStore =
     \<lparr>releases = [exampleRelease,
                  exampleRelease\<lparr>rid := 2, slug := ''AJ1-blue''\<rparr>,
                  exampleRelease\<lparr>rid := 3, slug := ''AJ4-red''\<rparr>],
      release_images = [\<lparr>releaseId = Some 1, imageUrl = ''red.png'', imageId = 0\<rparr>],
      timestamps = True\<rparr>"

section \<open>Reading a release through a predicate\<close>

lemma releaseRow_columns [simp]:
  "releaseRow r ''id'' = N (Finite (of_nat (rid r)))"
  "releaseRow r ''slug'' = S (slug r)"
  "releaseRow r ''name'' = S (name r)"
  "releaseRow r ''sku'' = S (sku r)"
  "releaseRow r ''gender'' = S (gender r)"
  "releaseRow r ''releaseDate'' = (case releaseDate r of None \<Rightarrow> Null | Some t \<Rightarrow> D (Instant t))"
  "releaseRow r ''priceEUR'' = N (Finite (priceEUR r))"
  "releaseRow r ''priceGBP'' = N (Finite (priceGBP r))"
  "releaseRow r ''priceUSD'' = N (Finite (priceUSD r))"
  by (simp_all add: releaseRow_def)

lemma selects_Attr [simp]: "selects (Attr a c) r = holds c (releaseRow r a)"
  by (simp add: selects_def)

lemma selects_WhereOr [simp]: "selects (WhereOr ws) r = list_ex (\<lambda>w. selects w r) ws"
  by (simp add: selects_def)

section \<open>The gender filter\<close>

text \<open>
  C2: whatever gender or array of genders is requested, the predicate of the \<open>gender\<close>
  filter selects exactly the releases whose gender is one of the requested values or is
  \<open>'u'\<close>; it is a predicate on the release itself. In particular \<open>gender: 'm'\<close> selects
  no release of gender \<open>'f'\<close>.
\<close>

theorem gender_filter_includes_unisex:
  "(\<exists>f. gender_filter (Str v) = Inr f \<and> model f = None \<and>
        (\<forall>r. selects (filter' f) r \<longleftrightarrow> gender r = v \<or> gender r = ''u''))
   \<and> (\<exists>f. gender_filter (Arr vs) = Inr f \<and> model f = None \<and>
        (\<forall>r. selects (filter' f) r \<longleftrightarrow> gender r \<in> set vs \<or> gender r = ''u''))
   \<and> (\<exists>f. gender_filter (Str ''m'') = Inr f \<and>
        (\<forall>r. gender r = ''f'' \<longrightarrow> \<not> selects (filter' f) r))"
  by (auto simp: gender_filter_def list_ex_iff)

theorem gender_filter_includes_unisex_witness:
  "\<exists>f. gender_filter (Str ''m'') = Inr f
     \<and> selects (filter' f) exampleRelease
     \<and> selects (filter' f) (exampleRelease\<lparr>gender := ''u''\<rparr>)
     \<and> \<not> selects (filter' f) (exampleRelease\<lparr>gender := ''f''\<rparr>)"
  using gender_filter_includes_unisex [of "''m''" "[]"]
  by (auto simp: exampleRelease_def)

section \<open>The filters on the release date\<close>

text \<open>
  C3: at a fixed reading of the clock, \<open>outdated\<close> selects a release with a release date
  exactly when the date is before the start of the current UTC day, \<open>coming\<close> exactly
  when it is at or after it, so exactly one of the two selects it; neither selects a
  release without a release date.
\<close>

theorem outdated_coming_partition:
  "\<exists>fo fc. outdated e v = Inr fo \<and> coming e v' = Inr fc \<and>
     (\<forall>r. case releaseDate r of
             None \<Rightarrow> \<not> selects (filter' fo) r \<and> \<not> selects (filter' fc) r
           | Some t \<Rightarrow>
               (selects (filter' fo) r \<longleftrightarrow> t < (now e div msPerDay) * msPerDay) \<and>
               (selects (filter' fc) r \<longleftrightarrow> (now e div msPerDay) * msPerDay \<le> t) \<and>
               (selects (filter' fo) r \<noteq> selects (filter' fc) r))"
  by (auto simp: outdated_def coming_def utcToday_def Let_def split: option.splits)

theorem outdated_coming_partition_witness:
  "\<exists>fo fc. outdated \<lparr>now = 86400001\<rparr> (Str ''1'') = Inr fo
       \<and> coming \<lparr>now = 86400001\<rparr> (Str ''1'') = Inr fc
       \<and> \<not> selects (filter' fo) exampleRelease \<and> selects (filter' fc) exampleRelease
       \<and> selects (filter' fo) (exampleRelease\<lparr>releaseDate := Some 86399999\<rparr>)
       \<and> \<not> selects (filter' fc) (exampleRelease\<lparr>releaseDate := Some 86399999\<rparr>)
       \<and> \<not> selects (filter' fo) (exampleRelease\<lparr>releaseDate := None\<rparr>)
       \<and> \<not> selects (filter' fc) (exampleRelease\<lparr>releaseDate := None\<rparr>)"
proof -
  obtain fo fc where f: "outdated \<lparr>now = 86400001\<rparr> (Str ''1'') = Inr fo"
      "coming \<lparr>now = 86400001\<rparr> (Str ''1'') = Inr fc"
    and p: "\<And>r. case releaseDate r of
             None \<Rightarrow> \<not> selects (filter' fo) r \<and> \<not> selects (filter' fc) r
           | Some t \<Rightarrow>
               (selects (filter' fo) r \<longleftrightarrow> t < (now \<lparr>now = 86400001\<rparr> div msPerDay) * msPerDay) \<and>
               (selects (filter' fc) r \<longleftrightarrow> (now \<lparr>now = 86400001\<rparr> div msPerDay) * msPerDay \<le> t) \<and>
               (selects (filter' fo) r \<noteq> selects (filter' fc) r)"
    using outdated_coming_partition [of "\<lparr>now = 86400001\<rparr>" "Str ''1''" "Str ''1''"] by blast
  from p [of exampleRelease] p [of "exampleRelease\<lparr>releaseDate := Some 86399999\<rparr>"]
       p [of "exampleRelease\<lparr>releaseDate := None\<rparr>"] f
  show ?thesis by (simp add: exampleRelease_def msPerDay_def)
qed

section \<open>The price filters\<close>

lemma holds_bounds [simp]:
  "holds (OpGte (N (Finite x))) (N (Finite p)) \<longleftrightarrow> x \<le> p"
  "holds (OpLte (N (Finite x))) (N (Finite p)) \<longleftrightarrow> p \<le> x"
  by auto





section \<open>Malformed numbers and dates\<close>




section \<open>Which filters read the clock\<close>




section \<open>Patterns without pattern characters\<close>






section \<open>Splitting on white space\<close>

lemma splitLoop_not_Nil [simp]: "splitLoop piece rest \<noteq> []"
  by (induction piece rest rule: splitLoop.induct) auto








section \<open>The free-text filter\<close>




section \<open>Counting releases by slug\<close>





section \<open>Looking a release up by id\<close>

lemma selects_whereId [simp]: "selects (whereId i) r \<longleftrightarrow> rid r = i"
  by (simp add: whereId_def)

lemma findOne_whereId_None:
  "findOne (whereId i) db = None \<longleftrightarrow> (\<forall>r\<in>set (releases db). rid r \<noteq> i)"
  by (auto simp: findOne_def find_None_iff)

lemma findOne_whereId_Some:
  "findOne (whereId i) db = Some r \<Longrightarrow> r \<in> set (releases db) \<and> rid r = i"
  by (auto simp: findOne_def find_Some_iff)

lemma freshImageId_above:
  "\<forall>row\<in>set (release_images db). imageId row < freshImageId db"
proof -
  have "\<forall>row\<in>set rows. imageId row < foldr (\<lambda>row n. max (Suc (imageId row)) n) rows 0"
    for rows :: "image list"
    by (induction rows) (auto simp: less_max_iff_disj)
  then show ?thesis
    by (simp add: freshImageId_def)
qed

lemma bulkCreate_ids:
  "map imageId (fst (bulkCreate records db)) = [freshImageId db ..< freshImageId db + length records]"
  by (simp add: bulkCreate_def Let_def map_snd_zip_take comp_def case_prod_unfold)

lemma bulkCreate_attrs:
  "map imageAttrs.truncate (fst (bulkCreate records db)) = records"
proof -
  have "map (\<lambda>x. imageAttrs.truncate \<lparr>releaseId = releaseId (fst x), imageUrl = imageUrl (fst x), imageId = snd x\<rparr>)
          (zip records [freshImageId db ..< freshImageId db + length records])
        = map fst (zip records [freshImageId db ..< freshImageId db + length records])"
    by (intro map_cong) (auto simp: imageAttrs.defs)
  then show ?thesis
    by (simp add: bulkCreate_def Let_def comp_def case_prod_unfold)
qed

lemma addImages_bulkCreate:
  "release_images (addImages r (fst (bulkCreate records db)) (snd (bulkCreate records db)))
         = release_images db @ map (\<lambda>row. row\<lparr>releaseId := Some (rid r)\<rparr>) (fst (bulkCreate records db))"
proof -
  let ?rows = "fst (bulkCreate records db)"
  have ids: "set (map imageId ?rows) = {freshImageId db ..< freshImageId db + length records}"
    by (simp only: bulkCreate_ids set_upt)
  have imgs: "release_images (snd (bulkCreate records db)) = release_images db @ ?rows"
    by (simp add: bulkCreate_def Let_def)
  have old: "map (\<lambda>row. if imageId row \<in> set (map imageId ?rows)
                      then row\<lparr>releaseId := Some (rid r)\<rparr> else row) (release_images db)
             = release_images db"
    unfolding ids using freshImageId_above [of db] by (intro map_idI) fastforce
  have new: "map (\<lambda>row. if imageId row \<in> set (map imageId ?rows)
                      then row\<lparr>releaseId := Some (rid r)\<rparr> else row) ?rows
             = map (\<lambda>row. row\<lparr>releaseId := Some (rid r)\<rparr>) ?rows"
    by (intro map_cong) auto
  show ?thesis
    unfolding addImages_def using imgs old new by simp
qed

lemma addImages_releases:
  "releases (addImages r rows (snd (bulkCreate records db))) = releases db"
  by (simp add: addImages_def bulkCreate_def Let_def)

section \<open>Images of a release\<close>

text \<open>
  C5: \<open>createImages\<close> on an id that no release has fails with \<open>EntityNotFound\<close> and
  leaves the store as it was; on the id of a stored release it inserts one image row per
  given record, with the given attributes and identifiers that no stored row has, makes
  that release the owner of the inserted rows, leaves every other row as it was, and
  answers the rows it created.
\<close>

theorem createImages_inserts_and_associates:
  "((\<forall>r\<in>set (releases db). rid r \<noteq> i) \<longrightarrow>
      createImages i images db = (Inl EntityNotFound, db))
   \<and> ((\<exists>r\<in>set (releases db). rid r = i) \<longrightarrow>
      (\<exists>created db'. createImages i images db = (Inr created, db')
         \<and> map imageAttrs.truncate created = images
         \<and> distinct (map imageId created)
         \<and> (\<forall>row\<in>set (release_images db). imageId row \<notin> set (map imageId created))
         \<and> release_images db' =
             release_images db @ map (\<lambda>row. row\<lparr>releaseId := Some i\<rparr>) created
         \<and> releases db' = releases db))"
proof (intro conjI impI)
  assume "\<forall>r\<in>set (releases db). rid r \<noteq> i"
  then have "findOne (whereId i) db = None" by (simp add: findOne_whereId_None)
  then show "createImages i images db = (Inl EntityNotFound, db)"
    by (simp add: createImages_def)
next
  assume "\<exists>r\<in>set (releases db). rid r = i"
  then have "findOne (whereId i) db \<noteq> None" by (simp add: findOne_whereId_None)
  then obtain r where r: "findOne (whereId i) db = Some r" by blast
  then have i: "rid r = i" by (simp add: findOne_whereId_Some)
  let ?created = "fst (bulkCreate images db)"
  let ?db' = "addImages r ?created (snd (bulkCreate images db))"
  have "createImages i images db = (Inr ?created, ?db')"
    using r by (simp add: createImages_def case_prod_unfold Let_def)
  moreover have "map imageAttrs.truncate ?created = images" by (rule bulkCreate_attrs)
  moreover have "distinct (map imageId ?created)"
    by (simp only: bulkCreate_ids distinct_upt)
  moreover have "\<forall>row\<in>set (release_images db). imageId row \<notin> set (map imageId ?created)"
    using freshImageId_above [of db] by (fastforce simp: bulkCreate_ids)
  moreover have "release_images ?db' =
      release_images db @ map (\<lambda>row. row\<lparr>releaseId := Some i\<rparr>) ?created"
    using addImages_bulkCreate [of r images db] i by simp
  moreover have "releases ?db' = releases db" by (rule addImages_releases)
  ultimately show "\<exists>created db'. createImages i images db = (Inr created, db')
         \<and> map imageAttrs.truncate created = images
         \<and> distinct (map imageId created)
         \<and> (\<forall>row\<in>set (release_images db). imageId row \<notin> set (map imageId created))
         \<and> release_images db' =
             release_images db @ map (\<lambda>row. row\<lparr>releaseId := Some i\<rparr>) created
         \<and> releases db' = releases db"
    by blast
qed

theorem createImages_inserts_and_associates_witness:
  "createImages 9 [\<lparr>releaseId = None, imageUrl = ''blue.png''\<rparr>] exampleStore
       = (Inl EntityNotFound, exampleStore)
   \<and> (\<exists>created db'.
         createImages 2 [\<lparr>releaseId = None, imageUrl = ''blue.png''\<rparr>] exampleStore
           = (Inr created, db')
         \<and> map imageUrl created = [''blue.png'']
         \<and> map imageUrl (release_images db') = [''red.png'', ''blue.png'']
         \<and> map releaseId (release_images db') = [Some 1, Some 2])"
proof -
  have absent: "\<forall>r\<in>set (releases exampleStore). rid r \<noteq> 9"
    by (simp add: exampleStore_def exampleRelease_def)
  have present: "\<exists>r\<in>set (releases exampleStore). rid r = 2"
    by (simp add: exampleStore_def exampleRelease_def)
  note inst = createImages_inserts_and_associates
      [of exampleStore _ "[\<lparr>releaseId = None, imageUrl = ''blue.png''\<rparr>]"]
  from inst [of 9] absent
  have a: "createImages 9 [\<lparr>releaseId = None, imageUrl = ''blue.png''\<rparr>] exampleStore
       = (Inl EntityNotFound, exampleStore)" by blast
  from inst [of 2] present obtain created db' where
    c: "createImages 2 [\<lparr>releaseId = None, imageUrl = ''blue.png''\<rparr>] exampleStore
           = (Inr created, db')"
    and t: "map imageAttrs.truncate created = [\<lparr>releaseId = None, imageUrl = ''blue.png''\<rparr>]"
    and imgs: "release_images db' =
         release_images exampleStore @ map (\<lambda>row. row\<lparr>releaseId := Some 2\<rparr>) created"
    by auto
  from t obtain row where cr: "created = [row]" "imageUrl row = ''blue.png''"
    by (cases created) (auto simp: imageAttrs.defs)
  from imgs cr have "map imageUrl (release_images db') = [''red.png'', ''blue.png'']"
      "map releaseId (release_images db') = [Some 1, Some 2]"
    by (simp_all add: exampleStore_def)
  with a c cr show ?thesis by simp
qed

text \<open>
  C6: \<open>getAllImages\<close> fails with \<open>EntityNotFound\<close> when no release has the id;
  otherwise it answers the image rows owned by that release, in order, each converted by
  \<open>ReleaseImage\<close>, which is the empty sequence when the release owns no image.
\<close>

theorem getAllImages_converts_images:
  "((\<forall>r\<in>set (releases db). rid r \<noteq> i) \<longrightarrow>
       getAllImages ReleaseImage i db = Inl EntityNotFound)
   \<and> ((\<exists>r\<in>set (releases db). rid r = i) \<longrightarrow>
       getAllImages ReleaseImage i db =
         Inr (map ReleaseImage (filter (\<lambda>row. releaseId row = Some i) (release_images db))))
   \<and> ((\<exists>r\<in>set (releases db). rid r = i) \<and>
        (\<forall>row\<in>set (release_images db). releaseId row \<noteq> Some i) \<longrightarrow>
       getAllImages ReleaseImage i db = Inr [])"
proof -
  have none: "getAllImages ReleaseImage i db = Inl EntityNotFound"
    if "\<forall>r\<in>set (releases db). rid r \<noteq> i"
    using that by (simp add: getAllImages_def findOne_whereId_None [symmetric])
  have some: "getAllImages ReleaseImage i db =
         Inr (map ReleaseImage (filter (\<lambda>row. releaseId row = Some i) (release_images db)))"
    if "\<exists>r\<in>set (releases db). rid r = i"
  proof -
    from that have "findOne (whereId i) db \<noteq> None" by (simp add: findOne_whereId_None)
    then obtain r where r: "findOne (whereId i) db = Some r" by blast
    then have "rid r = i" by (simp add: findOne_whereId_Some)
    with r show ?thesis by (simp add: getAllImages_def getImages_def)
  qed
  have empty: "filter (\<lambda>row. releaseId row = Some i) (release_images db) = []"
    if "\<forall>row\<in>set (release_images db). releaseId row \<noteq> Some i"
    using that by (simp add: filter_empty_conv)
  show ?thesis using none some empty by simp
qed

theorem getAllImages_converts_images_witness:
  "getAllImages imageUrl 9 exampleStore = Inl EntityNotFound
   \<and> getAllImages imageUrl 1 exampleStore = Inr [''red.png'']
   \<and> getAllImages imageUrl 2 exampleStore = Inr []"
proof -
  have absent: "\<forall>r\<in>set (releases exampleStore). rid r \<noteq> 9"
    by (simp add: exampleStore_def exampleRelease_def)
  have present: "\<exists>r\<in>set (releases exampleStore). rid r = 1"
      "\<exists>r\<in>set (releases exampleStore). rid r = 2"
    by (simp_all add: exampleStore_def exampleRelease_def)
  have none: "\<forall>row\<in>set (release_images exampleStore). releaseId row \<noteq> Some 2"
    by (simp add: exampleStore_def)
  have imgs: "map imageUrl (filter (\<lambda>row. releaseId row = Some 1) (release_images exampleStore))
               = [''red.png'']"
    by (simp add: exampleStore_def)
  show ?thesis
    using getAllImages_converts_images [of exampleStore 9 imageUrl]
      getAllImages_converts_images [of exampleStore 1 imageUrl]
      getAllImages_converts_images [of exampleStore 2 imageUrl]
      absent present none imgs
    by simp
qed

section \<open>Hiding a release from the dashboard\<close>

text \<open>
  C10, as the code has it: \<open>setHiddenDashboard\<close> writes the flag into \<open>hiddenDashboard\<close>
  of the releases whose id is the given one and, when the backend maintains the
  timestamps of the model, the time of the call into their \<open>updatedAt\<close>; every other
  field of these releases, every other release and every image row stay as they were.
\<close>

theorem setHiddenDashboard_frame:
  "\<exists>n db'. setHiddenDashboard i flag e db = (n, db')
     \<and> releases db' =
         map (\<lambda>r. if rid r = i
                  then r\<lparr>hiddenDashboard := flag,
                         updatedAt := (if timestamps db then now e else updatedAt r)\<rparr>
                  else r)
             (releases db)
     \<and> release_images db' = release_images db
     \<and> timestamps db' = timestamps db"
  by (auto simp: setHiddenDashboard_def update_def)

theorem setHiddenDashboard_frame_witness:
  "\<exists>n db'. setHiddenDashboard 2 True \<lparr>now = 5\<rparr> (exampleStore\<lparr>timestamps := False\<rparr>) = (n, db')
     \<and> releases db' = [exampleRelease,
                        exampleRelease\<lparr>rid := 2, slug := ''AJ1-blue'', hiddenDashboard := True\<rparr>,
                        exampleRelease\<lparr>rid := 3, slug := ''AJ4-red''\<rparr>]
     \<and> release_images db' = release_images exampleStore"
  using setHiddenDashboard_frame [of 2 True "\<lparr>now = 5\<rparr>" "exampleStore\<lparr>timestamps := False\<rparr>"]
  by (auto simp: exampleStore_def exampleRelease_def)

text \<open>
  The claim as the specification states it fails where the backend maintains the
  timestamps: the release with id 1 had \<open>updatedAt = 0\<close> and has \<open>updatedAt = 5\<close> after
  \<open>setHiddenDashboard\<close> at time 5.
\<close>

theorem setHiddenDashboard_counterexample:
  "updatedAt (hd (releases exampleStore)) = 0
   \<and> updatedAt (hd (releases (snd (setHiddenDashboard 1 True \<lparr>now = 5\<rparr> exampleStore)))) = 5"
  by (simp add: setHiddenDashboard_def update_def exampleStore_def exampleRelease_def)

end
